theory Spec2Isabelle
  imports Complex_Main "HOL-Library.Char_ord" "HOL-Library.List_Lexorder"
begin

section \<open>The bot hub: workers, supervisor and event store\<close>

text \<open>
  The development embeds three source files of the bot hub:
  \<^item> \<^verbatim>\<open>bot_base.py\<close>: the class \<^verbatim>\<open>BotBase\<close> every worker derives from;
  \<^item> \<^verbatim>\<open>orchestrator.py\<close>: the class \<^verbatim>\<open>BotOrchestrator\<close> (registry, execution pool,
    health supervisor, control surface);
  \<^item> \<^verbatim>\<open>utils/db.py\<close>: the class \<^verbatim>\<open>Database\<close>, as far as the tables \<^verbatim>\<open>bot_errors\<close> and
    \<^verbatim>\<open>migrations\<close> go;
  and, of the concrete workers, the lifecycle methods of \<^verbatim>\<open>MonitoringBot\<close>
  (\<^verbatim>\<open>bots/monitoring_bot.py\<close>) and of the \<^verbatim>\<open>MockBot\<close> of \<^verbatim>\<open>tests/conftest.py\<close>.

  Python objects live in an explicit store, because the source shares them: the registry,
  the tasks of the pool and the callers all hold the same worker object, and a worker's
  statistics dictionary can be reached through more than one name. Addresses are indices
  into the store; allocating appends.

  Clock readings (\<^verbatim>\<open>time.time()\<close>, \<^verbatim>\<open>datetime.now().isoformat()\<close>) are arguments of the
  function that takes them. An exception is a value of class \<^verbatim>\<open>Exception\<close> with its
  \<^verbatim>\<open>str()\<close>; every handler of the three files is \<^verbatim>\<open>except Exception\<close>. The lines a worker
  writes to its own logger, and the lines of the logger of \<^verbatim>\<open>Database\<close>, are not part of
  the state; the lines of the orchestrator's logger are.
\<close>

subsection \<open>Values\<close>

type_synonym ref = nat

type_synonym timestamp = string  \<comment> \<open>\<^verbatim>\<open>datetime.now().isoformat()\<close>\<close>

datatype exn = Exception string

fun str :: "exn \<Rightarrow> string" where
  "str (Exception m) = m"

text \<open>
  How a call ends. \<open>Running\<close> is a call that has not come back: a worker's \<^verbatim>\<open>start()\<close>
  sits in its loop for as long as the worker runs.
\<close>

datatype outcome = Returns | Raises exn | Running

text \<open>Python's \<^verbatim>\<open>int(x)\<close> on a float truncates towards zero.\<close>

definition py_int :: "real \<Rightarrow> int" where
  "py_int x = (if 0 \<le> x then \<lfloor>x\<rfloor> else \<lceil>x\<rceil>)"

subsection \<open>BotBase\<close>

text \<open>
  \<^verbatim>\<open>self.stats\<close> is a dictionary with five fixed keys; the repository only ever assigns
  to these keys, with values of one type each, so the dictionary is a record. Its identity
  is kept: a worker holds the address of its dictionary.
\<close>

record stats_dict =
  start_time :: "real option"
  total_runs :: int
  successful_runs :: int
  failed_runs :: int
  last_error :: "string option"

record bot =
  name :: string
  running :: bool
  healthy :: bool
  last_activity :: "timestamp option"
  stats :: ref

record store =
  objs :: "bot list"
  dicts :: "stats_dict list"

text \<open>
  A method of a worker reads and writes the worker's own fields and the dictionary behind
  \<^verbatim>\<open>self.stats\<close>, and returns, raises or keeps running. The abstract methods
  \<^verbatim>\<open>start\<close>, \<^verbatim>\<open>stop\<close> and \<^verbatim>\<open>run\<close> of a class are three such methods.
\<close>

type_synonym bot_method = "bot \<Rightarrow> stats_dict \<Rightarrow> outcome \<times> bot \<times> stats_dict"

record botclass =
  start :: bot_method
  stop :: bot_method
  run :: bot_method

definition new_stats :: stats_dict where
  "new_stats = \<lparr>start_time = None, total_runs = 0, successful_runs = 0,
                failed_runs = 0, last_error = None\<rparr>"

text \<open>\<^verbatim>\<open>BotBase.__init__\<close>: a new worker and a new dictionary; the name is the class name.\<close>

definition BotBase_init :: "string \<Rightarrow> store \<Rightarrow> ref \<times> store" where
  "BotBase_init cls s =
     (length (objs s),
      s\<lparr>objs := objs s @ [\<lparr>name = cls, running = False, healthy = True,
                           last_activity = None, stats = length (dicts s)\<rparr>],
        dicts := dicts s @ [new_stats]\<rparr>)"

definition is_running :: "bot \<Rightarrow> bool" where
  "is_running b = running b"

definition is_healthy :: "bot \<Rightarrow> bool" where
  "is_healthy b = healthy b"

definition get_last_activity :: "bot \<Rightarrow> timestamp option" where
  "get_last_activity b = last_activity b"

text \<open>\<^verbatim>\<open>_get_uptime\<close>: \<^verbatim>\<open>None\<close> and \<^verbatim>\<open>0.0\<close> are both false in the test of \<^verbatim>\<open>start_time\<close>.\<close>

definition get_uptime :: "real \<Rightarrow> stats_dict \<Rightarrow> int option" where
  "get_uptime now d =
     (case start_time d of
        None \<Rightarrow> None
      | Some t0 \<Rightarrow> if t0 = 0 then None else Some (py_int (now - t0)))"

text \<open>\<^verbatim>\<open>_record_run(success, error)\<close>, with the clock reading it takes at its end.\<close>

definition record_run ::
  "bool \<Rightarrow> string option \<Rightarrow> timestamp \<Rightarrow> bot \<Rightarrow> stats_dict \<Rightarrow> bot \<times> stats_dict" where
  "record_run success err now b d =
     (let d1 = d\<lparr>total_runs := total_runs d + 1\<rparr>;
          d2 = (if success then d1\<lparr>successful_runs := successful_runs d1 + 1\<rparr>
                else d1\<lparr>failed_runs := failed_runs d1 + 1, last_error := err\<rparr>)
      in (b\<lparr>last_activity := Some now\<rparr>, d2))"

text \<open>
  \<^verbatim>\<open>safe_run\<close>: the worker's \<^verbatim>\<open>run()\<close> inside \<^verbatim>\<open>try\<close>. The handler records the failed run and
  then clears the flag; \<^verbatim>\<open>safe_run\<close> itself raises nothing. A \<^verbatim>\<open>run()\<close> that does not come
  back leaves \<^verbatim>\<open>safe_run\<close> waiting in it.
\<close>

definition safe_run :: "bot_method \<Rightarrow> timestamp \<Rightarrow> bot_method" where
  "safe_run run_m now b d =
     (case run_m b d of
        (Returns, b1, d1) \<Rightarrow>
          (let (b2, d2) = record_run True None now b1 d1 in (Returns, b2, d2))
      | (Raises e, b1, d1) \<Rightarrow>
          (let (b2, d2) = record_run False (Some (str e)) now b1 d1
           in (Returns, b2\<lparr>healthy := False\<rparr>, d2))
      | (Running, b1, d1) \<Rightarrow> (Running, b1, d1))"

text \<open>The invariant of the run counters.\<close>

definition stats_inv :: "stats_dict \<Rightarrow> bool" where
  "stats_inv d \<longleftrightarrow> total_runs d = successful_runs d + failed_runs d"

subsection \<open>Methods on the store\<close>

text \<open>
  Calling a method on the worker at address \<open>r\<close>: the method works on the object and on
  the dictionary the object points to, both updated in place. No method of the repository
  binds \<^verbatim>\<open>self.stats\<close> to another dictionary, so the address stays.
\<close>

definition call :: "bot_method \<Rightarrow> ref \<Rightarrow> store \<Rightarrow> outcome \<times> store" where
  "call m r s =
     (let b = objs s ! r; a = stats b; (out, b1, d1) = m b (dicts s ! a)
      in (out, s\<lparr>objs := (objs s)[r := b1\<lparr>stats := a\<rparr>], dicts := (dicts s)[a := d1]\<rparr>))"

text \<open>A reference is valid when the worker and its dictionary are allocated.\<close>

definition valid :: "store \<Rightarrow> ref \<Rightarrow> bool" where
  "valid s r \<longleftrightarrow> r < length (objs s) \<and> stats (objs s ! r) < length (dicts s)"

text \<open>\<^verbatim>\<open>get_stats\<close>: \<^verbatim>\<open>self.stats.copy()\<close> allocates a new dictionary with the same entries.\<close>

definition get_stats :: "ref \<Rightarrow> store \<Rightarrow> ref \<times> store" where
  "get_stats r s =
     (length (dicts s), s\<lparr>dicts := dicts s @ [dicts s ! stats (objs s ! r)]\<rparr>)"

text \<open>
  \<^verbatim>\<open>health_check\<close> builds a dictionary of five entries; the entry \<^verbatim>\<open>'stats'\<close> is
  \<^verbatim>\<open>self.stats\<close> itself, that is the address of the worker's dictionary.
\<close>

record snapshot =
  snap_healthy :: bool
  snap_running :: bool
  snap_last_activity :: "timestamp option"
  snap_uptime :: "int option"
  snap_stats :: ref

definition health_check :: "real \<Rightarrow> ref \<Rightarrow> store \<Rightarrow> snapshot" where
  "health_check now r s =
     (let b = objs s ! r
      in \<lparr>snap_healthy = healthy b, snap_running = running b,
          snap_last_activity = last_activity b,
          snap_uptime = get_uptime now (dicts s ! stats b),
          snap_stats = stats b\<rparr>)"

text \<open>
  Code outside the class that holds the address of a dictionary can change the
  dictionary: any function on its entries.
\<close>

definition mutate :: "ref \<Rightarrow> (stats_dict \<Rightarrow> stats_dict) \<Rightarrow> store \<Rightarrow> store" where
  "mutate a f s = s\<lparr>dicts := (dicts s)[a := f (dicts s ! a)]\<rparr>"

subsection \<open>Concrete workers\<close>

text \<open>
  \<^verbatim>\<open>MockBot\<close> (\<^verbatim>\<open>tests/conftest.py\<close>): \<^verbatim>\<open>start\<close> and \<^verbatim>\<open>stop\<close> set the running flag,
  \<^verbatim>\<open>run\<close> is \<^verbatim>\<open>pass\<close>.
\<close>

definition MockBot :: botclass where
  "MockBot =
     \<lparr>start = (\<lambda>b d. (Returns, b\<lparr>running := True\<rparr>, d)),
      stop = (\<lambda>b d. (Returns, b\<lparr>running := False\<rparr>, d)),
      run = (\<lambda>b d. (Returns, b, d))\<rparr>"

text \<open>
  \<^verbatim>\<open>MonitoringBot.run\<close> is \<^verbatim>\<open>while self.running:\<close> around one monitoring cycle in
  \<^verbatim>\<open>try\<close>; the handler logs, clears the health flag and sleeps. What a cycle collects goes
  to fields of the subclass; of the fields of \<^verbatim>\<open>BotBase\<close> only \<^verbatim>\<open>healthy\<close> is written.
  The list gives how the cycles end that the loop has gone through so far; when it is
  used up the loop is still running, unless the flag was already false.
\<close>

datatype cycle = Passes | Fails exn

fun MonitoringBot_run :: "cycle list \<Rightarrow> bot_method" where
  "MonitoringBot_run [] b d = (if running b then Running else Returns, b, d)"
| "MonitoringBot_run (c # cs) b d =
     (if running b
      then MonitoringBot_run cs (case c of Passes \<Rightarrow> b | Fails e \<Rightarrow> b\<lparr>healthy := False\<rparr>) d
      else (Returns, b, d))"

definition MonitoringBot_start :: "real \<Rightarrow> cycle list \<Rightarrow> bot_method" where
  "MonitoringBot_start now cs b d =
     MonitoringBot_run cs (b\<lparr>running := True\<rparr>) (d\<lparr>start_time := Some now\<rparr>)"

definition MonitoringBot_stop :: bot_method where
  "MonitoringBot_stop b d = (Returns, b\<lparr>running := False\<rparr>, d)"

definition MonitoringBot :: "real \<Rightarrow> cycle list \<Rightarrow> botclass" where
  "MonitoringBot now cs =
     \<lparr>start = MonitoringBot_start now cs, stop = MonitoringBot_stop,
      run = MonitoringBot_run cs\<rparr>"

subsection \<open>The event store\<close>

text \<open>
  Of the database the model keeps the table \<^verbatim>\<open>bot_errors\<close> and the names in the table
  \<^verbatim>\<open>migrations\<close>. A table is there or not, and \<^verbatim>\<open>bot_errors\<close> comes in two shapes: with
  the four columns of the statement in \<^verbatim>\<open>BotOrchestrator.init_database\<close> (\<^verbatim>\<open>id\<close>,
  \<^verbatim>\<open>bot_name\<close>, \<^verbatim>\<open>error\<close>, \<^verbatim>\<open>timestamp\<close>), or with \<^verbatim>\<open>severity\<close> and \<^verbatim>\<open>resolved\<close> as well,
  the columns of the statement in \<^verbatim>\<open>_migration_001_initial_schema\<close>. The SQL engine is the
  list of rows in insertion order and the counter of \<^verbatim>\<open>AUTOINCREMENT\<close>. Text columns compare
  byte by byte, which is the lexicographic order of strings. A column a table does not
  have is \<open>None\<close> in its rows. A value of type \<open>database\<close> is also what the database file
  holds when \<^verbatim>\<open>Database\<close> opens it.
\<close>

record error_row =
  row_id :: nat
  bot_name :: string
  error :: string
  timestamp :: timestamp
  severity :: "string option"
  resolved :: "int option"

record error_table =
  with_severity :: bool
  table_rows :: "error_row list"
  table_seq :: nat

record database =
  migrations :: "string list option"
  bot_errors :: "error_table option"

text \<open>
  An SQL error comes out of \<^verbatim>\<open>Database.execute\<close> as it is: the handler there logs, rolls
  back and raises again. The three errors of SQLite that the statements of the model can
  meet:
\<close>

definition syntax_error :: exn where
  "syntax_error =
     Exception (''near '' @ [CHR 0x22] @ ''INDEX'' @ [CHR 0x22] @ '': syntax error'')"

definition no_such_table :: exn where
  "no_such_table = Exception ''no such table: bot_errors''"

definition no_such_column :: exn where
  "no_such_column = Exception ''table bot_errors has no column named severity''"

text \<open>
  \<^verbatim>\<open>Database.insert\<close> on \<^verbatim>\<open>bot_errors\<close>; it returns \<^verbatim>\<open>cursor.lastrowid\<close>. The severity is
  \<open>None\<close> when the statement does not name the column; the columns that are not named
  take the defaults of the schema (\<^verbatim>\<open>'ERROR'\<close> and \<^verbatim>\<open>0\<close>). A failed statement changes
  nothing.
\<close>

definition insert_bot_errors ::
  "string \<Rightarrow> string \<Rightarrow> string option \<Rightarrow> timestamp \<Rightarrow> database
     \<Rightarrow> (exn + nat) \<times> database" where
  "insert_bot_errors n e sev ts dbs =
     (case bot_errors dbs of
        None \<Rightarrow> (Inl no_such_table, dbs)
      | Some t \<Rightarrow>
          if sev \<noteq> None \<and> \<not> with_severity t then (Inl no_such_column, dbs)
          else
            (let i = table_seq t + 1;
                 row = \<lparr>row_id = i, bot_name = n, error = e, timestamp = ts,
                        severity = (if with_severity t
                                    then Some (case sev of None \<Rightarrow> ''ERROR'' | Some v \<Rightarrow> v)
                                    else None),
                        resolved = (if with_severity t then Some 0 else None)\<rparr>
             in (Inr i,
                 dbs\<lparr>bot_errors :=
                       Some (t\<lparr>table_rows := table_rows t @ [row], table_seq := i\<rparr>)\<rparr>)))"

text \<open>
  \<^verbatim>\<open>log_bot_error(bot_name, error, severity)\<close> names the four columns \<^verbatim>\<open>bot_name\<close>,
  \<^verbatim>\<open>error\<close>, \<^verbatim>\<open>severity\<close> and \<^verbatim>\<open>timestamp\<close>; the severity defaults to \<^verbatim>\<open>"ERROR"\<close>.
\<close>

definition log_bot_error ::
  "string \<Rightarrow> string \<Rightarrow> string \<Rightarrow> timestamp \<Rightarrow> database \<Rightarrow> (exn + nat) \<times> database" where
  "log_bot_error n e sev now dbs = insert_bot_errors n e (Some sev) now dbs"

text \<open>
  \<^verbatim>\<open>get_bot_errors(bot_name, limit)\<close>:
  \<^verbatim>\<open>SELECT * FROM bot_errors WHERE bot_name = ? ORDER BY timestamp DESC LIMIT ?\<close>.
  A negative \<^verbatim>\<open>LIMIT\<close> is no limit; the limit defaults to 100. Rows with equal timestamps
  come in the order of their insertion, oldest first, as SQLite returns them.
\<close>

definition get_bot_errors :: "string \<Rightarrow> int \<Rightarrow> database \<Rightarrow> exn + error_row list" where
  "get_bot_errors n limit dbs =
     (case bot_errors dbs of
        None \<Rightarrow> Inl no_such_table
      | Some t \<Rightarrow>
          (let found = rev (sort_key timestamp
                              (rev (filter (\<lambda>r. bot_name r = n) (table_rows t))))
           in Inr (if limit < 0 then found else take (nat limit) found)))"

text \<open>
  The migrations. SQLite has no \<^verbatim>\<open>INDEX\<close> clause inside \<^verbatim>\<open>CREATE TABLE\<close>: the first
  statement of \<^verbatim>\<open>_migration_001_initial_schema\<close>, the one for \<^verbatim>\<open>bot_errors\<close>, is a syntax
  error, and so is the first statement of \<^verbatim>\<open>_migration_003_analytics_tables\<close>. The three
  tables of \<^verbatim>\<open>_migration_002_bot_tables\<close> are not part of the model.
\<close>

definition migration_001_initial_schema :: "database \<Rightarrow> outcome \<times> database" where
  "migration_001_initial_schema dbs = (Raises syntax_error, dbs)"

definition migration_002_bot_tables :: "database \<Rightarrow> outcome \<times> database" where
  "migration_002_bot_tables dbs = (Returns, dbs)"

definition migration_003_analytics_tables :: "database \<Rightarrow> outcome \<times> database" where
  "migration_003_analytics_tables dbs = (Raises syntax_error, dbs)"

definition applied :: "database \<Rightarrow> string list" where
  "applied dbs = (case migrations dbs of None \<Rightarrow> [] | Some ms \<Rightarrow> ms)"

text \<open>
  One round of the loop of \<^verbatim>\<open>migrate\<close>: a migration that is not marked as applied is
  run and then marked; its exception is raised again.
\<close>

definition apply_migration ::
  "string \<Rightarrow> (database \<Rightarrow> outcome \<times> database) \<Rightarrow> database \<Rightarrow> outcome \<times> database" where
  "apply_migration nm m dbs =
     (if nm \<in> set (applied dbs) then (Returns, dbs)
      else (case m dbs of
              (Returns, d1) \<Rightarrow> (Returns, d1\<lparr>migrations := Some (applied d1 @ [nm])\<rparr>)
            | (out, d1) \<Rightarrow> (out, d1)))"

text \<open>\<^verbatim>\<open>migrate\<close> creates the table \<^verbatim>\<open>migrations\<close> if need be and goes through the three.\<close>

definition migrate :: "database \<Rightarrow> outcome \<times> database" where
  "migrate dbs =
     (case apply_migration ''_migration_001_initial_schema'' migration_001_initial_schema
             (dbs\<lparr>migrations := Some (applied dbs)\<rparr>) of
        (Returns, d1) \<Rightarrow>
          (case apply_migration ''_migration_002_bot_tables'' migration_002_bot_tables d1 of
             (Returns, d2) \<Rightarrow>
               apply_migration ''_migration_003_analytics_tables''
                 migration_003_analytics_tables d2
           | (out, d2) \<Rightarrow> (out, d2))
      | (out, d1) \<Rightarrow> (out, d1))"

text \<open>\<^verbatim>\<open>Database.__init__\<close> on a database file; \<^verbatim>\<open>auto_migrate\<close> defaults to true.\<close>

definition Database_init :: "bool \<Rightarrow> database \<Rightarrow> outcome \<times> database" where
  "Database_init auto_migrate file = (if auto_migrate then migrate file else (Returns, file))"

subsection \<open>BotOrchestrator\<close>

text \<open>
  What the orchestrator does to the outside, in the order it does it: the lines of its
  logger, the calls of \<^verbatim>\<open>start()\<close> and \<^verbatim>\<open>stop()\<close> on workers, \<^verbatim>\<open>time.sleep\<close>, and the
  tasks \<^verbatim>\<open>_run_bot(bot_name, bot)\<close> it submits to the pool.
\<close>

datatype level = INFO | WARNING | ERROR

datatype event =
    Log level string
  | Call_start ref
  | Call_stop ref
  | Sleep nat
  | Submit string ref

record orchestrator =
  bots :: "(string \<times> ref) list"  \<comment> \<open>\<^verbatim>\<open>self.bots\<close>, in insertion order\<close>
  db :: database
  heap :: store
  events :: "event list"
  orch_running :: bool  \<comment> \<open>\<^verbatim>\<open>self.running\<close>\<close>
  health_check_interval :: "nat option"  \<comment> \<open>the entry of the configuration, if any\<close>

text \<open>The class of the object at an address: Python's dynamic dispatch.\<close>

type_synonym class_table = "ref \<Rightarrow> botclass"

definition log :: "level \<Rightarrow> string \<Rightarrow> orchestrator \<Rightarrow> orchestrator" where
  "log l m oc = oc\<lparr>events := events oc @ [Log l m]\<rparr>"

definition sleep :: "nat \<Rightarrow> orchestrator \<Rightarrow> orchestrator" where
  "sleep n oc = oc\<lparr>events := events oc @ [Sleep n]\<rparr>"

definition submit :: "string \<Rightarrow> ref \<Rightarrow> orchestrator \<Rightarrow> orchestrator" where
  "submit n r oc = oc\<lparr>events := events oc @ [Submit n r]\<rparr>"

definition call_start :: "class_table \<Rightarrow> ref \<Rightarrow> orchestrator \<Rightarrow> outcome \<times> orchestrator" where
  "call_start ct r oc =
     (let (out, h) = call (start (ct r)) r (heap oc)
      in (out, oc\<lparr>heap := h, events := events oc @ [Call_start r]\<rparr>))"

definition call_stop :: "class_table \<Rightarrow> ref \<Rightarrow> orchestrator \<Rightarrow> outcome \<times> orchestrator" where
  "call_stop ct r oc =
     (let (out, h) = call (stop (ct r)) r (heap oc)
      in (out, oc\<lparr>heap := h, events := events oc @ [Call_stop r]\<rparr>))"

text \<open>Python's \<^verbatim>\<open>d[k] = v\<close> and \<^verbatim>\<open>del d[k]\<close> on a dictionary that keeps insertion order.\<close>

fun dict_set :: "'k \<Rightarrow> 'v \<Rightarrow> ('k \<times> 'v) list \<Rightarrow> ('k \<times> 'v) list" where
  "dict_set k v [] = [(k, v)]"
| "dict_set k v ((k', v') # kvs) =
     (if k = k' then (k, v) # kvs else (k', v') # dict_set k v kvs)"

definition dict_del :: "'k \<Rightarrow> ('k \<times> 'v) list \<Rightarrow> ('k \<times> 'v) list" where
  "dict_del k kvs = filter (\<lambda>kv. fst kv \<noteq> k) kvs"

definition register_bot :: "string \<Rightarrow> ref \<Rightarrow> orchestrator \<Rightarrow> orchestrator" where
  "register_bot n r oc =
     log INFO (''Registered bot: '' @ n) (oc\<lparr>bots := dict_set n r (bots oc)\<rparr>)"

text \<open>
  \<^verbatim>\<open>_record_bot_error\<close> inserts the three columns it has through \<^verbatim>\<open>Database.execute\<close>;
  an SQL error comes back to the caller.
\<close>

definition record_bot_error ::
  "string \<Rightarrow> string \<Rightarrow> timestamp \<Rightarrow> orchestrator \<Rightarrow> outcome \<times> orchestrator" where
  "record_bot_error n e now oc =
     (case insert_bot_errors n e None now (db oc) of
        (Inl x, dbs) \<Rightarrow> (Raises x, oc\<lparr>db := dbs\<rparr>)
      | (Inr i, dbs) \<Rightarrow> (Returns, oc\<lparr>db := dbs\<rparr>))"

text \<open>
  \<^verbatim>\<open>_run_bot\<close>, the task of the pool: \<^verbatim>\<open>bot.start()\<close> inside \<^verbatim>\<open>try\<close>. While \<^verbatim>\<open>start()\<close>
  has not come back the task holds its slot. An exception of \<^verbatim>\<open>_record_bot_error\<close> is
  raised inside the handler and leaves the task.
\<close>

definition run_bot ::
  "class_table \<Rightarrow> timestamp \<Rightarrow> string \<Rightarrow> ref \<Rightarrow> orchestrator \<Rightarrow> outcome \<times> orchestrator" where
  "run_bot ct now n r oc =
     (case call_start ct r (log INFO (''Starting bot: '' @ n) oc) of
        (Returns, oc1) \<Rightarrow> (Returns, oc1)
      | (Raises e, oc1) \<Rightarrow>
          record_bot_error n (str e) now
            (log ERROR (''Error running bot '' @ n @ '': '' @ str e) oc1)
      | (Running, oc1) \<Rightarrow> (Running, oc1))"

text \<open>\<^verbatim>\<open>_attempt_bot_restart\<close>: stop, two seconds, resubmit, all inside \<^verbatim>\<open>try\<close>.\<close>

definition attempt_bot_restart ::
  "class_table \<Rightarrow> string \<Rightarrow> ref \<Rightarrow> orchestrator \<Rightarrow> outcome \<times> orchestrator" where
  "attempt_bot_restart ct n r oc =
     (case call_stop ct r (log INFO (''Attempting to restart '' @ n @ ''...'') oc) of
        (Returns, oc1) \<Rightarrow>
          (Returns, log INFO (''Successfully restarted '' @ n) (submit n r (sleep 2 oc1)))
      | (Raises e, oc1) \<Rightarrow>
          (Returns, log ERROR (''Failed to restart '' @ n @ '': '' @ str e) oc1)
      | (Running, oc1) \<Rightarrow> (Running, oc1))"

text \<open>
  \<^verbatim>\<open>_health_check_loop\<close>. The body of its \<^verbatim>\<open>for\<close> loop, for one entry of the registry;
  the \<^verbatim>\<open>try\<close> around it has nothing to catch, since \<^verbatim>\<open>is_healthy()\<close> reads a flag and
  \<^verbatim>\<open>_attempt_bot_restart\<close> handles the exceptions of \<^verbatim>\<open>stop()\<close> itself:
\<close>

definition health_check_bot ::
  "class_table \<Rightarrow> string \<times> ref \<Rightarrow> orchestrator \<Rightarrow> outcome \<times> orchestrator" where
  "health_check_bot ct nr oc =
     (if \<not> is_healthy (objs (heap oc) ! snd nr)
      then attempt_bot_restart ct (fst nr) (snd nr)
             (log WARNING (''Bot '' @ fst nr @ '' is unhealthy!'') oc)
      else (Returns, oc))"

text \<open>the \<^verbatim>\<open>for\<close> loop over \<^verbatim>\<open>self.bots.items()\<close>, one poll cycle:\<close>

fun health_check_bots ::
  "class_table \<Rightarrow> (string \<times> ref) list \<Rightarrow> orchestrator \<Rightarrow> outcome \<times> orchestrator" where
  "health_check_bots ct [] oc = (Returns, oc)"
| "health_check_bots ct (nr # nrs) oc =
     (case health_check_bot ct nr oc of
        (Running, oc1) \<Rightarrow> (Running, oc1)
      | (_, oc1) \<Rightarrow> health_check_bots ct nrs oc1)"

text \<open>
  and the \<^verbatim>\<open>while self.running:\<close> around it, which sleeps the configured interval
  (60 seconds by default) after each cycle. The loop ends only when another thread clears
  the flag, so the number of cycles looked at is an argument.
\<close>

fun health_check_loop ::
  "class_table \<Rightarrow> nat \<Rightarrow> orchestrator \<Rightarrow> outcome \<times> orchestrator" where
  "health_check_loop ct 0 oc = (if orch_running oc then Running else Returns, oc)"
| "health_check_loop ct (Suc k) oc =
     (if orch_running oc
      then (case health_check_bots ct (bots oc) oc of
              (Running, oc1) \<Rightarrow> (Running, oc1)
            | (_, oc1) \<Rightarrow>
                health_check_loop ct k
                  (sleep (case health_check_interval oc of None \<Rightarrow> 60 | Some i \<Rightarrow> i) oc1))
      else (Returns, oc))"

text \<open>\<^verbatim>\<open>stop_bot\<close>: an exception of \<^verbatim>\<open>stop()\<close> leaves before the \<^verbatim>\<open>del\<close>.\<close>

definition stop_bot :: "class_table \<Rightarrow> string \<Rightarrow> orchestrator \<Rightarrow> outcome \<times> orchestrator" where
  "stop_bot ct n oc =
     (case map_of (bots oc) n of
        Some r \<Rightarrow>
          (case call_stop ct r (log INFO (''Stopping bot: '' @ n) oc) of
             (Returns, oc1) \<Rightarrow> (Returns, oc1\<lparr>bots := dict_del n (bots oc1)\<rparr>)
           | (out, oc1) \<Rightarrow> (out, oc1))
      | None \<Rightarrow> (Returns, log WARNING (''Bot not found: '' @ n) oc))"

text \<open>\<^verbatim>\<open>restart_bot\<close>: no \<^verbatim>\<open>try\<close> here, an exception of \<^verbatim>\<open>stop()\<close> goes to the caller.\<close>

definition restart_bot :: "class_table \<Rightarrow> string \<Rightarrow> orchestrator \<Rightarrow> outcome \<times> orchestrator" where
  "restart_bot ct n oc =
     (case map_of (bots oc) n of
        Some r \<Rightarrow>
          (case call_stop ct r (log INFO (''Restarting bot: '' @ n) oc) of
             (Returns, oc1) \<Rightarrow> (Returns, submit n r (sleep 2 oc1))
           | (out, oc1) \<Rightarrow> (out, oc1))
      | None \<Rightarrow> (Returns, log WARNING (''Bot not found: '' @ n) oc))"

text \<open>The part of a trace that an operation added, and the tasks submitted in a trace.\<close>

definition new_events :: "orchestrator \<Rightarrow> orchestrator \<Rightarrow> event list" where
  "new_events oc oc1 = drop (length (events oc)) (events oc1)"

fun submissions :: "event list \<Rightarrow> (string \<times> ref) list" where
  "submissions [] = []"
| "submissions (Submit n r # es) = (n, r) # submissions es"
| "submissions (_ # es) = submissions es"

text \<open>
  \<^verbatim>\<open>BotOrchestrator.__init__\<close> on a database file, with the interval of the configuration:
  \<^verbatim>\<open>self.db = Database()\<close> comes first, and its exception is the constructor's. Then
  \<^verbatim>\<open>init_database\<close>, of which the model keeps the statement for \<^verbatim>\<open>bot_errors\<close>
  (\<^verbatim>\<open>CREATE TABLE IF NOT EXISTS\<close> with four columns), and the body of the loop of
  \<^verbatim>\<open>load_bots\<close> for one enabled worker whose constructor succeeds.
\<close>

definition empty_store :: store where
  "empty_store = \<lparr>objs = [], dicts = []\<rparr>"

definition BotOrchestrator_init :: "nat option \<Rightarrow> database \<Rightarrow> exn + orchestrator" where
  "BotOrchestrator_init cfg file =
     (case Database_init True file of
        (Raises e, dbs) \<Rightarrow> Inl e
      | (out, dbs) \<Rightarrow>
          Inr \<lparr>bots = [], db = dbs, heap = empty_store,
               events = [Log INFO ''Bot Orchestrator initialized''],
               orch_running = False, health_check_interval = cfg\<rparr>)"

definition init_database :: "orchestrator \<Rightarrow> orchestrator" where
  "init_database oc =
     log INFO ''Database initialized successfully''
       ((log INFO ''Initializing database...'' oc)
          \<lparr>db := (db oc)\<lparr>bot_errors :=
                    Some (case bot_errors (db oc) of
                            None \<Rightarrow> \<lparr>with_severity = False, table_rows = [], table_seq = 0\<rparr>
                          | Some t \<Rightarrow> t)\<rparr>\<rparr>)"

definition load_bot :: "string \<Rightarrow> string \<Rightarrow> orchestrator \<Rightarrow> orchestrator" where
  "load_bot n cls oc =
     log INFO (''Loaded bot: '' @ n)
       (register_bot n (fst (BotBase_init cls (heap oc)))
          (oc\<lparr>heap := snd (BotBase_init cls (heap oc))\<rparr>))"

subsection \<open>Example configurations\<close>

text \<open>
  Three database files. A new one; one in which the three migrations are marked as
  applied, so that \<^verbatim>\<open>Database()\<close> goes through (the code of the repository does not
  bring a file into this state); and one in which moreover \<^verbatim>\<open>bot_errors\<close> exists with the
  columns \<^verbatim>\<open>severity\<close> and \<^verbatim>\<open>resolved\<close> (a table no statement of the repository creates).
\<close>

definition new_file :: database where
  "new_file = \<lparr>migrations = None, bot_errors = None\<rparr>"

definition prepared_file :: database where
  "prepared_file =
     \<lparr>migrations = Some [''_migration_001_initial_schema'', ''_migration_002_bot_tables'',
                         ''_migration_003_analytics_tables''],
      bot_errors = None\<rparr>"

definition full_schema_file :: database where
  "full_schema_file =
     prepared_file\<lparr>bot_errors :=
       Some \<lparr>with_severity = True, table_rows = [], table_seq = 0\<rparr>\<rparr>"

text \<open>
  A hub on the prepared file, after \<^verbatim>\<open>init_database\<close>, with one worker loaded; and the same
  hub with two workers.
\<close>

definition hub :: "string \<Rightarrow> string \<Rightarrow> orchestrator" where
  "hub n cls = load_bot n cls (init_database (projr (BotOrchestrator_init None prepared_file)))"

definition mock_bots :: class_table where
  "mock_bots r = MockBot"

definition monitoring :: "cycle list \<Rightarrow> class_table" where
  "monitoring cs r = MonitoringBot 1700000000 cs"

text \<open>
  Two workers that are not in the repository, for inputs that none of its workers
  gives. The registry takes any subclass of \<^verbatim>\<open>BotBase\<close> (\<^verbatim>\<open>register_bot\<close>; the test suite
  makes its own, \<^verbatim>\<open>MockBot\<close>). The first has the \<^verbatim>\<open>start()\<close> and \<^verbatim>\<open>stop()\<close> of
  \<^verbatim>\<open>MonitoringBot\<close> (set the flag, note the time, call \<^verbatim>\<open>self.run()\<close>) and a \<^verbatim>\<open>run()\<close> that
  raises; the second is \<^verbatim>\<open>MockBot\<close> with a \<^verbatim>\<open>stop()\<close> that raises.
\<close>

definition failing_run :: bot_method where
  "failing_run b d = (Raises (Exception ''boom''), b, d)"

definition RunRaisesBot :: botclass where
  "RunRaisesBot =
     \<lparr>start = (\<lambda>b d. failing_run (b\<lparr>running := True\<rparr>) (d\<lparr>start_time := Some 1700000000\<rparr>)),
      stop = MonitoringBot_stop,
      run = failing_run\<rparr>"

definition StopRaisesBot :: botclass where
  "StopRaisesBot = MockBot\<lparr>stop := (\<lambda>b d. (Raises (Exception ''cannot stop''), b, d))\<rparr>"

definition run_raises :: class_table where
  "run_raises r = RunRaisesBot"

definition stop_raises :: class_table where
  "stop_raises r = StopRaisesBot"

text \<open>A caller that overwrites a counter, and a store with one new worker.\<close>

definition overwrite :: "stats_dict \<Rightarrow> stats_dict" where
  "overwrite d = d\<lparr>failed_runs := 99, last_error := Some ''forged''\<rparr>"

definition one_mock :: store where
  "one_mock = snd (BotBase_init ''MockBot'' empty_store)"

text \<open>
  A hub whose monitoring worker has had a failing cycle, and a hub with a healthy mock
  worker at address 0 beside such a monitoring worker at address 1.
\<close>

definition sick_hub :: orchestrator where
  "sick_hub =
     snd (run_bot (monitoring [Fails (Exception ''connection refused'')])
            ''2024-05-01T10:00:00'' ''monitoring_bot'' 0
            (hub ''monitoring_bot'' ''MonitoringBot''))"

definition mixed :: class_table where
  "mixed r =
     (if r = 0 then MockBot
      else MonitoringBot 1700000000 [Fails (Exception ''connection refused'')])"

definition two_bots :: orchestrator where
  "two_bots =
     snd (run_bot mixed ''2024-05-01T10:00:00'' ''monitoring_bot'' 1
            (load_bot ''monitoring_bot'' ''MonitoringBot'' (hub ''mock_bot'' ''MockBot'')))"

text \<open>
  The file with the full table after two errors of the Twitter worker have been logged,
  and after \<open>k\<close> errors of the monitoring worker have been logged at 01:30 in a night in
  which the local clock is then set back by an hour.
\<close>

definition two_errors :: database where
  "two_errors =
     snd (log_bot_error ''twitter_bot'' ''rate limit'' ''ERROR'' ''2024-05-01T12:00:00.000000''
       (snd (log_bot_error ''twitter_bot'' ''timeout'' ''ERROR'' ''2024-05-01T09:00:00.000000''
          full_schema_file)))"

definition later_errors :: "nat \<Rightarrow> database" where
  "later_errors k =
     fold (\<lambda>i dbs. snd (log_bot_error ''monitoring_bot'' ''later'' ''ERROR''
                           ''2024-11-03T01:30:00.000000'' dbs))
          [0..<k] full_schema_file"

text \<open>
  The sick hub after one poll cycle of the supervisor, and after the task that the cycle
  resubmitted has started the worker again and three monitoring cycles have passed.
\<close>

definition restarted_hub :: orchestrator where
  "restarted_hub = snd (health_check_bots (monitoring []) (bots sick_hub) sick_hub)"

definition recovered_hub :: orchestrator where
  "recovered_hub =
     snd (run_bot (monitoring [Passes, Passes, Passes]) ''2024-05-01T10:01:02''
            ''monitoring_bot'' 0 restarted_hub)"

section \<open>Properties\<close>

lemmas orch_defs = run_bot_def call_start_def call_stop_def call_def log_def sleep_def
  submit_def record_bot_error_def insert_bot_errors_def attempt_bot_restart_def
  health_check_bot_def stop_bot_def restart_bot_def new_events_def register_bot_def

lemmas example_defs = hub_def load_bot_def init_database_def BotOrchestrator_init_def
  Database_init_def migrate_def apply_migration_def applied_def prepared_file_def
  migration_002_bot_tables_def empty_store_def BotBase_init_def new_stats_def
  mock_bots_def monitoring_def mixed_def run_raises_def stop_raises_def MockBot_def
  RunRaisesBot_def StopRaisesBot_def failing_run_def MonitoringBot_def
  MonitoringBot_start_def MonitoringBot_stop_def is_healthy_def

subsection \<open>The run counters\<close>

text \<open>
  C9. The counters of a worker satisfy \<open>total_runs = successful_runs + failed_runs\<close> when
  the worker is constructed (all three are zero), and every recording of a run keeps the
  equation: it adds exactly one to \<open>total_runs\<close> and exactly one to exactly one of
  \<open>successful_runs\<close> and \<open>failed_runs\<close>.
\<close>

theorem record_run_keeps_stats_inv:
  assumes "stats_inv d"
  shows "stats_inv new_stats
    \<and> total_runs new_stats = 0 \<and> successful_runs new_stats = 0 \<and> failed_runs new_stats = 0
    \<and> dicts (snd (BotBase_init cls s))
         ! stats (objs (snd (BotBase_init cls s)) ! fst (BotBase_init cls s)) = new_stats
    \<and> stats_inv (snd (record_run success err now b d))
    \<and> total_runs (snd (record_run success err now b d)) = total_runs d + 1
    \<and> successful_runs (snd (record_run success err now b d))
        = successful_runs d + (if success then 1 else 0)
    \<and> failed_runs (snd (record_run success err now b d))
        = failed_runs d + (if success then 0 else 1)"
  using assms
  by (simp add: stats_inv_def new_stats_def record_run_def BotBase_init_def Let_def)

theorem record_run_keeps_stats_inv_witness:
  "stats_inv new_stats
   \<and> stats_inv (snd (record_run False (Some ''boom'') ''2024-05-01T10:00:00''
        (objs one_mock ! 0) new_stats))
   \<and> failed_runs (snd (record_run False (Some ''boom'') ''2024-05-01T10:00:00''
        (objs one_mock ! 0) new_stats)) = 1"
proof -
  have h: "stats_inv new_stats"
    by (simp add: stats_inv_def new_stats_def)
  have z: "failed_runs new_stats = 0"
    by (simp add: new_stats_def)
  from record_run_keeps_stats_inv [OF h, of "''MockBot''" empty_store False "Some ''boom''"
      "''2024-05-01T10:00:00''" "objs one_mock ! 0"] h z
  show ?thesis by simp
qed

subsection \<open>A failed run cycle\<close>

text \<open>
  C2. For every worker whose \<^verbatim>\<open>run()\<close> is called through \<^verbatim>\<open>safe_run\<close> and raises there:
  when \<^verbatim>\<open>safe_run\<close> returns, which it does normally, the worker is not healthy, its
  counter of failed runs is exactly one more than \<^verbatim>\<open>run()\<close> left it, the last error is
  the message of the exception and the last activity is the time of the recording.
\<close>

theorem safe_run_records_failed_run:
  assumes "run_m b d = (Raises e, b1, d1)"
  shows "safe_run run_m now b d =
           (Returns,
            b1\<lparr>last_activity := Some now, healthy := False\<rparr>,
            d1\<lparr>total_runs := total_runs d1 + 1, failed_runs := failed_runs d1 + 1,
               last_error := Some (str e)\<rparr>)
         \<and> \<not> is_healthy (fst (snd (safe_run run_m now b d)))
         \<and> failed_runs (snd (snd (safe_run run_m now b d))) = failed_runs d1 + 1
         \<and> total_runs (snd (snd (safe_run run_m now b d))) = total_runs d1 + 1
         \<and> successful_runs (snd (snd (safe_run run_m now b d))) = successful_runs d1
         \<and> last_error (snd (snd (safe_run run_m now b d))) = Some (str e)
         \<and> last_activity (fst (snd (safe_run run_m now b d))) = Some now"
  using assms by (simp add: safe_run_def record_run_def is_healthy_def Let_def)

theorem safe_run_records_failed_run_witness:
  "failing_run (objs one_mock ! 0) new_stats
     = (Raises (Exception ''boom''), objs one_mock ! 0, new_stats)
   \<and> \<not> is_healthy (fst (snd (safe_run failing_run ''2024-05-01T10:00:00''
          (objs one_mock ! 0) new_stats)))
   \<and> failed_runs (snd (snd (safe_run failing_run ''2024-05-01T10:00:00''
          (objs one_mock ! 0) new_stats))) = 1
   \<and> last_error (snd (snd (safe_run failing_run ''2024-05-01T10:00:00''
          (objs one_mock ! 0) new_stats))) = Some ''boom''"
proof -
  have h: "failing_run (objs one_mock ! 0) new_stats
     = (Raises (Exception ''boom''), objs one_mock ! 0, new_stats)"
    by (simp add: failing_run_def)
  have z: "failed_runs new_stats = 0"
    by (simp add: new_stats_def)
  from safe_run_records_failed_run [where run_m = failing_run and b = "objs one_mock ! 0"
      and d = new_stats and now = "''2024-05-01T10:00:00''", OF h] h z
  show ?thesis by (simp add: is_healthy_def)
qed

text \<open>
  Without \<^verbatim>\<open>safe_run\<close> nothing of this is recorded. A worker whose \<^verbatim>\<open>start()\<close> calls
  \<^verbatim>\<open>self.run()\<close> itself and whose \<^verbatim>\<open>run()\<close> raises is healthy after \<^verbatim>\<open>start()\<close> and has
  no failed run; and the monitoring worker, whose loop catches the exception of a cycle
  itself, is unhealthy after a failed cycle but has no failed run, no last error and no
  last activity.
\<close>

theorem start_without_safe_run:
  "fst (run RunRaisesBot (objs one_mock ! 0) new_stats) = Raises (Exception ''boom'')
   \<and> fst (start RunRaisesBot (objs one_mock ! 0) new_stats) = Raises (Exception ''boom'')
   \<and> is_healthy (fst (snd (start RunRaisesBot (objs one_mock ! 0) new_stats)))
   \<and> failed_runs (snd (snd (start RunRaisesBot (objs one_mock ! 0) new_stats))) = 0
   \<and> \<not> is_healthy (fst (snd (MonitoringBot_start 1700000000
          [Fails (Exception ''connection refused'')] (objs one_mock ! 0) new_stats)))
   \<and> failed_runs (snd (snd (MonitoringBot_start 1700000000
          [Fails (Exception ''connection refused'')] (objs one_mock ! 0) new_stats))) = 0
   \<and> last_error (snd (snd (MonitoringBot_start 1700000000
          [Fails (Exception ''connection refused'')] (objs one_mock ! 0) new_stats))) = None
   \<and> last_activity (fst (snd (MonitoringBot_start 1700000000
          [Fails (Exception ''connection refused'')] (objs one_mock ! 0) new_stats))) = None"
  by (simp add: RunRaisesBot_def failing_run_def MonitoringBot_start_def is_healthy_def
      one_mock_def BotBase_init_def empty_store_def new_stats_def)

text \<open>A run that succeeds is recorded as such and leaves the health flag as it was.\<close>

lemma safe_run_success:
  "run_m b d = (Returns, b1, d1) \<Longrightarrow>
   safe_run run_m now b d =
     (Returns, b1\<lparr>last_activity := Some now\<rparr>,
      d1\<lparr>total_runs := total_runs d1 + 1, successful_runs := successful_runs d1 + 1\<rparr>)"
  by (simp add: safe_run_def record_run_def Let_def)

subsection \<open>Copies and shared dictionaries\<close>

text \<open>
  C10. \<^verbatim>\<open>get_stats()\<close> returns a copy: the dictionary it returns is a new one with the
  entries of the worker's statistics, and whatever a caller then does to the returned
  dictionary, the worker's own statistics and the result of a later \<^verbatim>\<open>get_stats()\<close>
  are what they were.
\<close>

theorem get_stats_is_a_copy:
  assumes "valid s r"
  shows "fst (get_stats r s) \<noteq> stats (objs s ! r)
    \<and> dicts (snd (get_stats r s)) ! fst (get_stats r s) = dicts s ! stats (objs s ! r)
    \<and> objs (mutate (fst (get_stats r s)) f (snd (get_stats r s))) = objs s
    \<and> dicts (mutate (fst (get_stats r s)) f (snd (get_stats r s))) ! stats (objs s ! r)
        = dicts s ! stats (objs s ! r)
    \<and> dicts (snd (get_stats r (mutate (fst (get_stats r s)) f (snd (get_stats r s)))))
         ! fst (get_stats r (mutate (fst (get_stats r s)) f (snd (get_stats r s))))
        = dicts s ! stats (objs s ! r)"
  using assms
  by (simp add: valid_def get_stats_def mutate_def Let_def nth_append)

theorem get_stats_is_a_copy_witness:
  "valid one_mock 0
   \<and> dicts (mutate (fst (get_stats 0 one_mock)) overwrite (snd (get_stats 0 one_mock)))
        ! stats (objs one_mock ! 0) = new_stats
   \<and> dicts (mutate (fst (get_stats 0 one_mock)) overwrite (snd (get_stats 0 one_mock)))
        ! fst (get_stats 0 one_mock) = overwrite new_stats"
proof -
  have h: "valid one_mock 0"
    by (simp add: valid_def one_mock_def BotBase_init_def empty_store_def)
  have d: "dicts one_mock ! stats (objs one_mock ! 0) = new_stats"
    by (simp add: one_mock_def BotBase_init_def empty_store_def)
  have c: "dicts (mutate (fst (get_stats 0 one_mock)) overwrite (snd (get_stats 0 one_mock)))
        ! fst (get_stats 0 one_mock) = overwrite new_stats"
    by (simp add: one_mock_def BotBase_init_def empty_store_def get_stats_def mutate_def)
  from get_stats_is_a_copy [OF h, of overwrite] h d c
  show ?thesis by simp
qed

text \<open>
  C7. A health snapshot produced by \<^verbatim>\<open>health_check()\<close> should hold a copy of the run
  statistics, so that later changes of the worker's statistics do not reach it. The
  code puts \<^verbatim>\<open>self.stats\<close> itself into the snapshot: a snapshot taken from a new worker
  reads zero failed runs, and the same snapshot reads one failed run after the worker's
  next run cycle has failed.
\<close>

theorem health_check_shares_stats:
  "snap_stats (health_check 1700000060 0 one_mock) = stats (objs one_mock ! 0)
   \<and> failed_runs (dicts one_mock ! snap_stats (health_check 1700000060 0 one_mock)) = 0
   \<and> failed_runs
       (dicts (snd (call (safe_run failing_run ''2024-05-01T10:00:00'') 0 one_mock))
          ! snap_stats (health_check 1700000060 0 one_mock)) = 1"
  by (simp add: health_check_def one_mock_def BotBase_init_def empty_store_def new_stats_def
      call_def safe_run_def failing_run_def record_run_def get_uptime_def Let_def)

subsection \<open>The event store\<close>

text \<open>
  \<^verbatim>\<open>Database()\<close> raises on every file in which the first migration is not marked as
  applied, and leaves \<^verbatim>\<open>bot_errors\<close> as it found it; the constructor of the orchestrator
  raises with it. Where the table is missing, or has no column \<^verbatim>\<open>severity\<close>,
  \<^verbatim>\<open>log_bot_error\<close> raises and writes nothing.
\<close>

lemma applied_created: "applied (dbs\<lparr>migrations := Some (applied dbs)\<rparr>) = applied dbs"
  by (simp add: applied_def)

lemma Database_init_raises:
  "''_migration_001_initial_schema'' \<notin> set (applied file) \<Longrightarrow>
   fst (Database_init True file) = Raises syntax_error
   \<and> bot_errors (snd (Database_init True file)) = bot_errors file"
  by (simp add: Database_init_def migrate_def apply_migration_def applied_created
      migration_001_initial_schema_def)

lemma BotOrchestrator_init_new_file:
  "BotOrchestrator_init cfg new_file = Inl syntax_error"
  by (simp add: BotOrchestrator_init_def Database_init_def migrate_def apply_migration_def
      applied_def migration_001_initial_schema_def new_file_def)

lemma log_bot_error_no_table:
  "bot_errors dbs = None \<Longrightarrow> log_bot_error n e sev ts dbs = (Inl no_such_table, dbs)"
  by (simp add: log_bot_error_def insert_bot_errors_def)

lemma log_bot_error_no_column:
  "bot_errors dbs = Some t \<Longrightarrow> \<not> with_severity t \<Longrightarrow>
   log_bot_error n e sev ts dbs = (Inl no_such_column, dbs)"
  by (simp add: log_bot_error_def insert_bot_errors_def)

lemma sorted_desc_rev_sort_key:
  fixes f :: "'a \<Rightarrow> 'b::linorder"
  shows "sorted_wrt (\<lambda>x y. f y \<le> f x) (rev (sort_key f xs))"
proof -
  have "sorted (map f (sort_key f xs))" by simp
  then have "sorted_wrt (\<lambda>x y. f x \<le> f y) (sort_key f xs)"
    by (simp add: sorted_map)
  then show ?thesis by (simp add: sorted_wrt_rev)
qed

text \<open>
  In a list in descending order an element is among the first \<open>k\<close> as soon as at most
  \<open>k\<close> elements of the list are as large as it (itself counted).
\<close>

lemma in_take_of_descending:
  fixes f :: "'a \<Rightarrow> 'b::linorder"
  assumes srt: "sorted_wrt (\<lambda>x y. f y \<le> f x) ys"
      and mem: "x \<in> set ys"
      and cnt: "length (filter (\<lambda>y. f x \<le> f y) ys) \<le> k"
  shows "x \<in> set (take k ys)"
proof (rule ccontr)
  assume notin: "x \<notin> set (take k ys)"
  have split: "ys = take k ys @ drop k ys" by simp
  from mem notin have indrop: "x \<in> set (drop k ys)"
    by (metis Un_iff set_append split)
  then have len: "k < length ys"
    by (cases "k < length ys") auto
  from srt have "sorted_wrt (\<lambda>x y. f y \<le> f x) (take k ys @ drop k ys)" by simp
  then have above: "\<forall>a \<in> set (take k ys). \<forall>b \<in> set (drop k ys). f b \<le> f a"
    unfolding sorted_wrt_append by blast
  with indrop have "\<forall>a \<in> set (take k ys). f x \<le> f a" by blast
  then have "filter (\<lambda>y. f x \<le> f y) (take k ys) = take k ys"
    by (simp add: filter_id_conv)
  then have l1: "length (filter (\<lambda>y. f x \<le> f y) (take k ys)) = k"
    using len by simp
  from indrop have "x \<in> set (filter (\<lambda>y. f x \<le> f y) (drop k ys))" by simp
  then have l2: "0 < length (filter (\<lambda>y. f x \<le> f y) (drop k ys))"
    by (metis length_greater_0_conv empty_iff empty_set)
  have "length (filter (\<lambda>y. f x \<le> f y) ys)
      = length (filter (\<lambda>y. f x \<le> f y) (take k ys))
        + length (filter (\<lambda>y. f x \<le> f y) (drop k ys))"
    by (metis split filter_append length_append)
  with l1 l2 cnt show False by simp
qed

lemma length_filter_rev_sort_key:
  "length (filter P (rev (sort_key f (rev xs)))) = length (filter P xs)"
  by (simp add: rev_filter [symmetric] filter_sort)

text \<open>
  C8. An error record that \<^verbatim>\<open>log_bot_error\<close> writes (bot name, error message, timestamp)
  is among the rows \<^verbatim>\<open>get_bot_errors\<close> returns for that bot name, with the same bot name,
  error and timestamp, under two conditions. The table \<^verbatim>\<open>bot_errors\<close> exists with the
  column \<^verbatim>\<open>severity\<close>, so that \<^verbatim>\<open>log_bot_error\<close> writes at all. And the limit of the
  query leaves room for the row: the limit is negative (no limit), or fewer rows than the
  limit were already stored for that bot with a timestamp not older than the new one.
\<close>

theorem logged_error_is_read_back:
  assumes "bot_errors dbs = Some t"
      and "with_severity t"
      and "limit < 0
     \<or> length (filter (\<lambda>r. bot_name r = n \<and> ts \<le> timestamp r) (table_rows t)) < nat limit"
  shows "fst (log_bot_error n e sev ts dbs) = Inr (table_seq t + 1)
    \<and> \<not> isl (get_bot_errors n limit (snd (log_bot_error n e sev ts dbs)))
    \<and> \<lparr>row_id = table_seq t + 1, bot_name = n, error = e, timestamp = ts,
        severity = Some sev, resolved = Some 0\<rparr>
      \<in> set (projr (get_bot_errors n limit (snd (log_bot_error n e sev ts dbs))))"
proof -
  let ?new = "\<lparr>row_id = table_seq t + 1, bot_name = n, error = e, timestamp = ts,
           severity = Some sev, resolved = Some 0\<rparr>"
  let ?rows = "filter (\<lambda>r. bot_name r = n) (table_rows t) @ [?new]"
  let ?ys = "rev (sort_key timestamp (rev ?rows))"
  have fst_eq: "fst (log_bot_error n e sev ts dbs) = Inr (table_seq t + 1)"
    using assms(1,2) by (simp add: log_bot_error_def insert_bot_errors_def Let_def)
  have get_eq: "get_bot_errors n limit (snd (log_bot_error n e sev ts dbs))
      = Inr (if limit < 0 then ?ys else take (nat limit) ?ys)"
    using assms(1,2)
    by (simp add: get_bot_errors_def log_bot_error_def insert_bot_errors_def Let_def)
  have mem: "?new \<in> set ?ys" by (simp add: set_insort_key)
  have "?new \<in> set (if limit < 0 then ?ys else take (nat limit) ?ys)"
  proof (cases "limit < 0")
    case True
    with mem show ?thesis by simp
  next
    case False
    with assms(3) have small:
      "length (filter (\<lambda>r. bot_name r = n \<and> ts \<le> timestamp r) (table_rows t)) < nat limit"
      by simp
    have "length (filter (\<lambda>y. timestamp ?new \<le> timestamp y) ?ys)
        = length (filter (\<lambda>y. timestamp ?new \<le> timestamp y) ?rows)"
      by (rule length_filter_rev_sort_key)
    also have "\<dots>
        = length (filter (\<lambda>r. bot_name r = n \<and> ts \<le> timestamp r) (table_rows t)) + 1"
      by (simp add: conj_commute)
    finally have "length (filter (\<lambda>y. timestamp ?new \<le> timestamp y) ?ys) \<le> nat limit"
      using small by simp
    then have "?new \<in> set (take (nat limit) ?ys)"
      using in_take_of_descending [OF sorted_desc_rev_sort_key mem] by blast
    with False show ?thesis by simp
  qed
  with fst_eq get_eq show ?thesis by simp
qed

lemma two_errors_table:
  "bot_errors two_errors =
     Some \<lparr>with_severity = True,
           table_rows =
             [\<lparr>row_id = 1, bot_name = ''twitter_bot'', error = ''timeout'',
               timestamp = ''2024-05-01T09:00:00.000000'', severity = Some ''ERROR'',
               resolved = Some 0\<rparr>,
              \<lparr>row_id = 2, bot_name = ''twitter_bot'', error = ''rate limit'',
               timestamp = ''2024-05-01T12:00:00.000000'', severity = Some ''ERROR'',
               resolved = Some 0\<rparr>],
           table_seq = 2\<rparr>"
  by (simp add: two_errors_def full_schema_file_def prepared_file_def log_bot_error_def
      insert_bot_errors_def Let_def)

text \<open>
  Two errors are stored, one of them later than the new one; with a limit of two the new
  row is read back, as the second of the two rows returned.
\<close>

theorem logged_error_is_read_back_witness:
  "length (filter (\<lambda>r. bot_name r = ''twitter_bot''
                        \<and> ''2024-05-01T10:00:00.000000'' \<le> timestamp r)
             (table_rows
               \<lparr>with_severity = True,
                table_rows =
                  [\<lparr>row_id = 1, bot_name = ''twitter_bot'', error = ''timeout'',
                    timestamp = ''2024-05-01T09:00:00.000000'', severity = Some ''ERROR'',
                    resolved = Some 0\<rparr>,
                   \<lparr>row_id = 2, bot_name = ''twitter_bot'', error = ''rate limit'',
                    timestamp = ''2024-05-01T12:00:00.000000'', severity = Some ''ERROR'',
                    resolved = Some 0\<rparr>],
                table_seq = 2\<rparr>)) = 1
   \<and> fst (log_bot_error ''twitter_bot'' ''boom'' ''ERROR'' ''2024-05-01T10:00:00.000000''
           two_errors) = Inr 3
   \<and> \<lparr>row_id = 3, bot_name = ''twitter_bot'', error = ''boom'',
       timestamp = ''2024-05-01T10:00:00.000000'', severity = Some ''ERROR'',
       resolved = Some 0\<rparr>
      \<in> set (projr (get_bot_errors ''twitter_bot'' 2
               (snd (log_bot_error ''twitter_bot'' ''boom'' ''ERROR''
                       ''2024-05-01T10:00:00.000000'' two_errors))))"
proof -
  let ?t = "\<lparr>with_severity = True,
           table_rows =
             [\<lparr>row_id = 1, bot_name = ''twitter_bot'', error = ''timeout'',
               timestamp = ''2024-05-01T09:00:00.000000'', severity = Some ''ERROR'',
               resolved = Some 0\<rparr>,
              \<lparr>row_id = 2, bot_name = ''twitter_bot'', error = ''rate limit'',
               timestamp = ''2024-05-01T12:00:00.000000'', severity = Some ''ERROR'',
               resolved = Some 0\<rparr>],
           table_seq = 2\<rparr>"
  have c: "length (filter (\<lambda>r. bot_name r = ''twitter_bot''
                        \<and> ''2024-05-01T10:00:00.000000'' \<le> timestamp r)
             (table_rows ?t)) = 1"
    by simp
  have s: "with_severity ?t" by simp
  have l: "(2::int) < 0
     \<or> length (filter (\<lambda>r. bot_name r = ''twitter_bot''
                        \<and> ''2024-05-01T10:00:00.000000'' \<le> timestamp r)
             (table_rows ?t)) < nat 2"
    using c by simp
  from logged_error_is_read_back [where dbs = two_errors and t = ?t and limit = 2
      and n = "''twitter_bot''" and ts = "''2024-05-01T10:00:00.000000''"
      and e = "''boom''" and sev = "''ERROR''", OF two_errors_table s l] c
  show ?thesis by simp
qed

text \<open>
  In a list in descending order an element is not among the first \<open>k\<close> when at least
  \<open>k\<close> elements of the list are larger.
\<close>

lemma not_in_take_of_descending:
  fixes f :: "'a \<Rightarrow> 'b::linorder"
  assumes srt: "sorted_wrt (\<lambda>x y. f y \<le> f x) ys"
      and cnt: "k \<le> length (filter (\<lambda>y. f x < f y) ys)"
  shows "x \<notin> set (take k ys)"
proof
  assume "x \<in> set (take k ys)"
  then obtain i where i: "i < length (take k ys)" "take k ys ! i = x"
    by (auto simp: in_set_conv_nth)
  then have ik: "i < k" and il: "i < length ys" and yi: "ys ! i = x" by simp_all
  have split: "ys = take i ys @ drop i ys" by simp
  from srt have "sorted_wrt (\<lambda>x y. f y \<le> f x) (drop i ys)"
    by (metis split sorted_wrt_append)
  moreover from il yi have "drop i ys = x # drop (Suc i) ys"
    by (metis Cons_nth_drop_Suc)
  ultimately have "\<forall>y \<in> set (drop i ys). f y \<le> f x"
    by auto
  then have "filter (\<lambda>y. f x < f y) (drop i ys) = []"
    by (auto simp: filter_empty_conv)
  then have "length (filter (\<lambda>y. f x < f y) ys) = length (filter (\<lambda>y. f x < f y) (take i ys))"
    by (metis split filter_append append_Nil2)
  also have "\<dots> \<le> i" using il by (metis length_filter_le length_take min.absorb2 less_imp_le)
  finally show False using cnt ik by simp
qed

lemma later_errors_table:
  "bot_errors (later_errors k) =
     Some \<lparr>with_severity = True,
           table_rows = map (\<lambda>i. \<lparr>row_id = i, bot_name = ''monitoring_bot'', error = ''later'',
               timestamp = ''2024-11-03T01:30:00.000000'', severity = Some ''ERROR'',
               resolved = Some 0\<rparr>) [1..<Suc k],
           table_seq = k\<rparr>"
proof (induction k)
  case 0
  then show ?case by (simp add: later_errors_def full_schema_file_def prepared_file_def)
next
  case (Suc k)
  have "later_errors (Suc k) = snd (log_bot_error ''monitoring_bot'' ''later'' ''ERROR''
                           ''2024-11-03T01:30:00.000000'' (later_errors k))"
    by (simp add: later_errors_def)
  with Suc show ?case
    by (simp add: log_bot_error_def insert_bot_errors_def Let_def)
qed

text \<open>
  With the default limit of 100 and a hundred rows of the same bot that carry a later
  timestamp, the row is written and is not among the rows returned.
\<close>

theorem logged_error_beyond_limit:
  "fst (log_bot_error ''monitoring_bot'' ''boom'' ''ERROR'' ''2024-11-03T01:10:00.000000''
         (later_errors 100)) = Inr 101
   \<and> \<not> isl (get_bot_errors ''monitoring_bot'' 100
         (snd (log_bot_error ''monitoring_bot'' ''boom'' ''ERROR''
                 ''2024-11-03T01:10:00.000000'' (later_errors 100))))
   \<and> ''boom'' \<notin> set (map error (projr (get_bot_errors ''monitoring_bot'' 100
         (snd (log_bot_error ''monitoring_bot'' ''boom'' ''ERROR''
                 ''2024-11-03T01:10:00.000000'' (later_errors 100))))))"
proof -
  define later where "later = map (\<lambda>i. \<lparr>row_id = i, bot_name = ''monitoring_bot'',
               error = ''later'', timestamp = ''2024-11-03T01:30:00.000000'',
               severity = Some ''ERROR'', resolved = Some 0\<rparr>) [1..<Suc 100]"
  define new where "new = \<lparr>row_id = 101, bot_name = ''monitoring_bot'', error = ''boom'',
               timestamp = ''2024-11-03T01:10:00.000000'', severity = Some ''ERROR'',
               resolved = Some 0\<rparr>"
  define ys where "ys = rev (sort_key timestamp (rev (later @ [new])))"
  have flt: "filter (\<lambda>r. bot_name r = ''monitoring_bot'') later = later"
    by (simp add: later_def filter_map o_def)
  have tab: "bot_errors (later_errors 100)
      = Some \<lparr>with_severity = True, table_rows = later, table_seq = 100\<rparr>"
    unfolding later_def by (rule later_errors_table)
  have get_eq: "get_bot_errors ''monitoring_bot'' 100
         (snd (log_bot_error ''monitoring_bot'' ''boom'' ''ERROR''
                 ''2024-11-03T01:10:00.000000'' (later_errors 100))) = Inr (take 100 ys)"
    by (simp add: get_bot_errors_def log_bot_error_def insert_bot_errors_def Let_def
        tab flt ys_def new_def)
  have lt: "''2024-11-03T01:10:00.000000'' < ''2024-11-03T01:30:00.000000''" by simp
  have "filter (\<lambda>y. timestamp new < timestamp y) (later @ [new]) = later"
    using lt by (simp add: later_def new_def filter_map o_def del: upt_Suc)
  moreover have "length later = 100" by (simp add: later_def del: upt_Suc)
  ultimately have "length (filter (\<lambda>y. timestamp new < timestamp y) (later @ [new])) = 100"
    by simp
  then have cnt: "100 \<le> length (filter (\<lambda>y. timestamp new < timestamp y) ys)"
    unfolding ys_def by (simp only: length_filter_rev_sort_key)
  have notin: "new \<notin> set (take 100 ys)"
    unfolding ys_def
    by (rule not_in_take_of_descending [OF sorted_desc_rev_sort_key cnt [unfolded ys_def]])
  have sety: "set ys = set later \<union> {new}"
    by (simp add: ys_def set_insort_key)
  have only: "\<forall>r \<in> set ys. error r = ''boom'' \<longrightarrow> r = new"
    unfolding sety by (auto simp add: later_def simp del: upt_Suc)
  have "''boom'' \<notin> set (map error (take 100 ys))"
  proof
    assume "''boom'' \<in> set (map error (take 100 ys))"
    then obtain r where r: "r \<in> set (take 100 ys)" "error r = ''boom''" by auto
    then have "r \<in> set ys" by (meson in_set_takeD)
    with only r(2) have "r = new" by blast
    with r(1) notin show False by simp
  qed
  moreover have "fst (log_bot_error ''monitoring_bot'' ''boom'' ''ERROR''
      ''2024-11-03T01:10:00.000000'' (later_errors 100)) = Inr 101"
    by (simp add: log_bot_error_def insert_bot_errors_def Let_def tab)
  ultimately show ?thesis using get_eq by simp
qed

subsection \<open>The task of the pool\<close>


text \<open>Without the table the insert raises inside the handler, and the task raises.\<close>

lemma run_bot_without_table:
  assumes "start (ct r) (objs (heap oc) ! r) (dicts (heap oc) ! stats (objs (heap oc) ! r))
             = (Raises e, b1, d1)"
      and "bot_errors (db oc) = None"
  shows "fst (run_bot ct now n r oc) = Raises no_such_table
    \<and> db (snd (run_bot ct now n r oc)) = db oc"
  using assms by (simp add: orch_defs Let_def)


lemma hub_registry: "bots (hub n cls) = [(n, 0)]"
  by (simp add: example_defs orch_defs)

lemma hub_worker:
  "objs (heap (hub n cls))
     = [\<lparr>name = cls, running = False, healthy = True, last_activity = None, stats = 0\<rparr>]
   \<and> dicts (heap (hub n cls)) = [new_stats]"
  by (simp add: example_defs orch_defs)



subsection \<open>The control surface\<close>

lemma map_of_dict_del: "map_of (dict_del k kvs) = (map_of kvs)(k := None)"
  by (induction kvs) (auto simp: dict_del_def)

text \<open>
  C6. For a name that is not in the registry \<^verbatim>\<open>stop_bot\<close> does not raise, logs one
  warning and changes nothing else: the registry and the workers are as before. For a
  name that is in the registry it calls \<^verbatim>\<open>stop()\<close> on that worker and, when \<^verbatim>\<open>stop()\<close>
  returns normally, then removes the name from the registry.
\<close>

theorem stop_bot_unknown_and_known:
  "(map_of (bots oc) n = None \<longrightarrow>
      stop_bot ct n oc
        = (Returns, oc\<lparr>events := events oc @ [Log WARNING (''Bot not found: '' @ n)]\<rparr>)
      \<and> bots (snd (stop_bot ct n oc)) = bots oc
      \<and> heap (snd (stop_bot ct n oc)) = heap oc)
   \<and> (map_of (bots oc) n' = Some r \<and> fst (call (stop (ct r)) r (heap oc)) = Returns \<longrightarrow>
      fst (stop_bot ct n' oc) = Returns
      \<and> new_events oc (snd (stop_bot ct n' oc))
          = [Log INFO (''Stopping bot: '' @ n'), Call_stop r]
      \<and> heap (snd (stop_bot ct n' oc)) = snd (call (stop (ct r)) r (heap oc))
      \<and> bots (snd (stop_bot ct n' oc)) = dict_del n' (bots oc)
      \<and> map_of (bots (snd (stop_bot ct n' oc))) = (map_of (bots oc))(n' := None))"
  by (auto simp add: orch_defs Let_def map_of_dict_del split: prod.splits outcome.splits)

text \<open>
  On a hub without any worker, as the command \<^verbatim>\<open>stop --bot\<close> finds it, and on a hub with
  one mock worker:
\<close>

theorem stop_bot_unknown_and_known_witness:
  "map_of (bots (init_database (projr (BotOrchestrator_init None prepared_file))))
       ''nonexistent'' = None
   \<and> bots (snd (stop_bot mock_bots ''nonexistent''
         (init_database (projr (BotOrchestrator_init None prepared_file))))) = []
   \<and> fst (stop_bot mock_bots ''nonexistent''
         (init_database (projr (BotOrchestrator_init None prepared_file)))) = Returns
   \<and> map_of (bots (hub ''mock_bot'' ''MockBot'')) ''nonexistent'' = None
   \<and> map_of (bots (hub ''mock_bot'' ''MockBot'')) ''mock_bot'' = Some 0
   \<and> fst (call (stop (mock_bots 0)) 0 (heap (hub ''mock_bot'' ''MockBot''))) = Returns
   \<and> bots (snd (stop_bot mock_bots ''nonexistent'' (hub ''mock_bot'' ''MockBot'')))
       = [(''mock_bot'', 0)]
   \<and> bots (snd (stop_bot mock_bots ''mock_bot'' (hub ''mock_bot'' ''MockBot''))) = []"
proof -
  let ?e = "init_database (projr (BotOrchestrator_init None prepared_file))"
  have e: "bots ?e = []"
    by (simp add: example_defs orch_defs)
  then have e1: "map_of (bots ?e) ''nonexistent'' = None" by simp
  have a: "map_of (bots (hub ''mock_bot'' ''MockBot'')) ''nonexistent'' = None"
    by (simp add: hub_registry)
  have b: "map_of (bots (hub ''mock_bot'' ''MockBot'')) ''mock_bot'' = Some 0"
    by (simp add: hub_registry)
  have c: "fst (call (stop (mock_bots 0)) 0 (heap (hub ''mock_bot'' ''MockBot''))) = Returns"
    by (simp add: hub_worker call_def mock_bots_def MockBot_def Let_def)
  note t1 = stop_bot_unknown_and_known [where oc = ?e and n = "''nonexistent''"
      and ct = mock_bots]
  note t2 = stop_bot_unknown_and_known [where oc = "hub ''mock_bot'' ''MockBot''"
      and n = "''nonexistent''" and n' = "''mock_bot''" and r = 0 and ct = mock_bots]
  from t1 e1 have u1: "bots (snd (stop_bot mock_bots ''nonexistent'' ?e)) = bots ?e"
      and u2: "fst (stop_bot mock_bots ''nonexistent'' ?e) = Returns"
    by simp_all
  from t2 a have u3: "bots (snd (stop_bot mock_bots ''nonexistent''
      (hub ''mock_bot'' ''MockBot''))) = bots (hub ''mock_bot'' ''MockBot'')"
    by simp
  from t2 b c have u4: "bots (snd (stop_bot mock_bots ''mock_bot''
      (hub ''mock_bot'' ''MockBot''))) = dict_del ''mock_bot'' (bots (hub ''mock_bot'' ''MockBot''))"
    by simp
  from u1 u2 u3 u4 e e1 a b c show ?thesis
    by (simp add: hub_registry dict_del_def)
qed

text \<open>
  What the guard that \<^verbatim>\<open>_attempt_bot_restart\<close> and \<^verbatim>\<open>shutdown\<close> put around \<^verbatim>\<open>stop()\<close> is
  for: when \<^verbatim>\<open>stop()\<close> raises, \<^verbatim>\<open>stop_bot\<close> and \<^verbatim>\<open>restart_bot\<close> raise with it, the registry
  is as before and nothing is submitted; \<^verbatim>\<open>_attempt_bot_restart\<close> logs the failure and
  submits nothing.
\<close>

lemma stop_bot_when_stop_raises:
  "map_of (bots oc) n = Some r \<Longrightarrow> fst (call (stop (ct r)) r (heap oc)) = Raises e \<Longrightarrow>
   fst (stop_bot ct n oc) = Raises e \<and> bots (snd (stop_bot ct n oc)) = bots oc"
  by (auto simp add: orch_defs Let_def split: prod.splits outcome.splits)

lemma restart_bot_when_stop_raises:
  "map_of (bots oc) n = Some r \<Longrightarrow> fst (call (stop (ct r)) r (heap oc)) = Raises e \<Longrightarrow>
   fst (restart_bot ct n oc) = Raises e
   \<and> submissions (new_events oc (snd (restart_bot ct n oc))) = []
   \<and> bots (snd (restart_bot ct n oc)) = bots oc"
  by (auto simp add: orch_defs Let_def split: prod.splits outcome.splits)

lemma attempt_bot_restart_when_stop_raises:
  "fst (call (stop (ct r)) r (heap oc)) = Raises e \<Longrightarrow>
   fst (attempt_bot_restart ct n r oc) = Returns
   \<and> new_events oc (snd (attempt_bot_restart ct n r oc))
       = [Log INFO (''Attempting to restart '' @ n @ ''...''), Call_stop r,
          Log ERROR (''Failed to restart '' @ n @ '': '' @ str e)]
   \<and> submissions (new_events oc (snd (attempt_bot_restart ct n r oc))) = []"
  by (auto simp add: orch_defs Let_def split: prod.splits outcome.splits)

text \<open>
  A registered worker whose \<^verbatim>\<open>stop()\<close> raises: \<^verbatim>\<open>stop()\<close> has been called, the exception
  leaves \<^verbatim>\<open>stop_bot\<close>, and the worker is still in the registry.
\<close>

theorem stop_bot_stop_raises:
  "map_of (bots (hub ''worker'' ''StopRaisesBot'')) ''worker'' = Some 0
   \<and> fst (stop_bot stop_raises ''worker'' (hub ''worker'' ''StopRaisesBot''))
     = Raises (Exception ''cannot stop'')
   \<and> new_events (hub ''worker'' ''StopRaisesBot'')
       (snd (stop_bot stop_raises ''worker'' (hub ''worker'' ''StopRaisesBot'')))
     = [Log INFO ''Stopping bot: worker'', Call_stop 0]
   \<and> bots (snd (stop_bot stop_raises ''worker'' (hub ''worker'' ''StopRaisesBot'')))
     = [(''worker'', 0)]"
  by (simp add: orch_defs hub_registry hub_worker stop_raises_def StopRaisesBot_def
      MockBot_def Let_def)

text \<open>
  C3. For a name in the registry whose worker's \<^verbatim>\<open>stop()\<close> returns normally, one call
  of \<^verbatim>\<open>restart_bot\<close> calls \<^verbatim>\<open>stop()\<close> on the worker, then sleeps the two seconds of
  grace, then submits exactly one task for that name to the pool, in this order; the
  restart of the supervisor, \<^verbatim>\<open>_attempt_bot_restart\<close>, does the same.
\<close>

theorem restart_bot_stops_then_submits:
  assumes "map_of (bots oc) n = Some r"
      and "fst (call (stop (ct r)) r (heap oc)) = Returns"
  shows "fst (restart_bot ct n oc) = Returns
    \<and> new_events oc (snd (restart_bot ct n oc))
        = [Log INFO (''Restarting bot: '' @ n), Call_stop r, Sleep 2, Submit n r]
    \<and> submissions (new_events oc (snd (restart_bot ct n oc))) = [(n, r)]
    \<and> fst (attempt_bot_restart ct n r oc) = Returns
    \<and> new_events oc (snd (attempt_bot_restart ct n r oc))
        = [Log INFO (''Attempting to restart '' @ n @ ''...''), Call_stop r, Sleep 2,
           Submit n r, Log INFO (''Successfully restarted '' @ n)]
    \<and> submissions (new_events oc (snd (attempt_bot_restart ct n r oc))) = [(n, r)]"
  using assms
  by (auto simp add: orch_defs Let_def split: prod.splits outcome.splits)

theorem restart_bot_stops_then_submits_witness:
  "map_of (bots (hub ''mock_bot'' ''MockBot'')) ''mock_bot'' = Some 0
   \<and> fst (call (stop (mock_bots 0)) 0 (heap (hub ''mock_bot'' ''MockBot''))) = Returns
   \<and> new_events (hub ''mock_bot'' ''MockBot'')
        (snd (restart_bot mock_bots ''mock_bot'' (hub ''mock_bot'' ''MockBot'')))
       = [Log INFO ''Restarting bot: mock_bot'', Call_stop 0, Sleep 2, Submit ''mock_bot'' 0]"
proof -
  have a: "map_of (bots (hub ''mock_bot'' ''MockBot'')) ''mock_bot'' = Some 0"
    by (simp add: hub_registry)
  have b: "fst (call (stop (mock_bots 0)) 0 (heap (hub ''mock_bot'' ''MockBot''))) = Returns"
    by (simp add: hub_worker call_def mock_bots_def MockBot_def Let_def)
  from restart_bot_stops_then_submits [where oc = "hub ''mock_bot'' ''MockBot''"
      and n = "''mock_bot''" and r = 0 and ct = mock_bots, OF a b] a b
  show ?thesis by simp
qed

text \<open>
  A registered worker whose \<^verbatim>\<open>stop()\<close> raises: one call of \<^verbatim>\<open>restart_bot\<close> calls
  \<^verbatim>\<open>stop()\<close> and submits no task.
\<close>

theorem restart_bot_stop_raises:
  "map_of (bots (hub ''worker'' ''StopRaisesBot'')) ''worker'' = Some 0
   \<and> new_events (hub ''worker'' ''StopRaisesBot'')
       (snd (restart_bot stop_raises ''worker'' (hub ''worker'' ''StopRaisesBot'')))
     = [Log INFO ''Restarting bot: worker'', Call_stop 0]
   \<and> submissions (new_events (hub ''worker'' ''StopRaisesBot'')
        (snd (restart_bot stop_raises ''worker'' (hub ''worker'' ''StopRaisesBot''))))
     = []"
  by (simp add: orch_defs hub_registry hub_worker stop_raises_def StopRaisesBot_def
      MockBot_def Let_def)

subsection \<open>The health supervisor\<close>

lemma submissions_append: "submissions (es @ fs) = submissions es @ submissions fs"
  by (induction es rule: submissions.induct) simp_all

text \<open>
  Polling one entry of the registry adds to the trace no call of \<^verbatim>\<open>stop()\<close> on a healthy
  worker and no task for it, and leaves that worker as it is, whichever entry is polled.
\<close>

lemma health_check_bot_frame:
  assumes "is_healthy (objs (heap oc) ! r)"
  shows "\<exists>es. events (snd (health_check_bot ct nr oc)) = events oc @ es
            \<and> Call_stop r \<notin> set es \<and> r \<notin> snd ` set (submissions es)
            \<and> objs (heap (snd (health_check_bot ct nr oc))) ! r = objs (heap oc) ! r"
proof (cases "snd nr = r")
  case True
  with assms show ?thesis by (simp add: health_check_bot_def)
next
  case False
  then show ?thesis
    by (auto simp add: orch_defs Let_def split: prod.splits outcome.splits)
qed

lemma health_check_bots_frame:
  assumes "is_healthy (objs (heap oc) ! r)"
  shows "\<exists>es. events (snd (health_check_bots ct nrs oc)) = events oc @ es
            \<and> Call_stop r \<notin> set es \<and> r \<notin> snd ` set (submissions es)
            \<and> objs (heap (snd (health_check_bots ct nrs oc))) ! r = objs (heap oc) ! r"
  using assms
proof (induction nrs arbitrary: oc)
  case Nil
  then show ?case by simp
next
  case (Cons nr nrs)
  obtain out oc1 where step: "health_check_bot ct nr oc = (out, oc1)"
    by (cases "health_check_bot ct nr oc")
  from health_check_bot_frame [OF Cons.prems, of ct nr] step
  obtain es where es: "events oc1 = events oc @ es" "Call_stop r \<notin> set es"
      "r \<notin> snd ` set (submissions es)" "objs (heap oc1) ! r = objs (heap oc) ! r"
    by auto
  show ?case
  proof (cases "out = Running")
    case True
    with step es show ?thesis by auto
  next
    case False
    with step have rest: "health_check_bots ct (nr # nrs) oc = health_check_bots ct nrs oc1"
      by (cases out) simp_all
    from Cons.prems es(4) have "is_healthy (objs (heap oc1) ! r)" by simp
    from Cons.IH [OF this] obtain fs where
      fs: "events (snd (health_check_bots ct nrs oc1)) = events oc1 @ fs"
        "Call_stop r \<notin> set fs" "r \<notin> snd ` set (submissions fs)"
        "objs (heap (snd (health_check_bots ct nrs oc1))) ! r = objs (heap oc1) ! r"
      by auto
    have "events (snd (health_check_bots ct (nr # nrs) oc)) = events oc @ (es @ fs)"
      using rest fs(1) es(1) by simp
    moreover have "Call_stop r \<notin> set (es @ fs)" using es(2) fs(2) by simp
    moreover have "r \<notin> snd ` set (submissions (es @ fs))"
      using es(3) fs(3) by (simp add: submissions_append image_Un)
    moreover have
      "objs (heap (snd (health_check_bots ct (nr # nrs) oc))) ! r = objs (heap oc) ! r"
      using rest fs(4) es(4) by simp
    ultimately show ?thesis by blast
  qed
qed

text \<open>
  C4. A poll of the health supervisor that reads \<^verbatim>\<open>is_healthy()\<close> as true for a worker
  does nothing for that worker. In a whole poll cycle over any registry, a worker that is
  healthy when the cycle begins gets no call of \<^verbatim>\<open>stop()\<close>, no task is submitted to the
  pool for it, and it ends the cycle as it began; stop and resubmission only happen on the
  branch taken when \<^verbatim>\<open>is_healthy()\<close> is false.
\<close>

theorem healthy_worker_is_left_alone:
  assumes "is_healthy (objs (heap oc) ! r)"
  shows "health_check_bot ct (n, r) oc = (Returns, oc)
    \<and> Call_stop r \<notin> set (new_events oc (snd (health_check_bots ct nrs oc)))
    \<and> r \<notin> snd ` set (submissions (new_events oc (snd (health_check_bots ct nrs oc))))
    \<and> objs (heap (snd (health_check_bots ct nrs oc))) ! r = objs (heap oc) ! r"
proof -
  from health_check_bots_frame [OF assms, of ct nrs] obtain es where
    es: "events (snd (health_check_bots ct nrs oc)) = events oc @ es"
      "Call_stop r \<notin> set es" "r \<notin> snd ` set (submissions es)"
      "objs (heap (snd (health_check_bots ct nrs oc))) ! r = objs (heap oc) ! r"
    by auto
  from es(1) have "new_events oc (snd (health_check_bots ct nrs oc)) = es"
    by (simp add: new_events_def)
  with es assms show ?thesis by (simp add: health_check_bot_def)
qed

lemma two_bots_state:
  "bots two_bots = [(''mock_bot'', 0), (''monitoring_bot'', 1)]
   \<and> healthy (objs (heap two_bots) ! 0) \<and> \<not> healthy (objs (heap two_bots) ! 1)"
  by (simp add: two_bots_def example_defs orch_defs Let_def)

theorem healthy_worker_is_left_alone_witness:
  "is_healthy (objs (heap two_bots) ! 0)
   \<and> Call_stop 0 \<notin> set (new_events two_bots (snd (health_check_bots mixed (bots two_bots) two_bots)))
   \<and> 0 \<notin> snd ` set (submissions
         (new_events two_bots (snd (health_check_bots mixed (bots two_bots) two_bots))))
   \<and> submissions (new_events two_bots (snd (health_check_bots mixed (bots two_bots) two_bots)))
       = [(''monitoring_bot'', 1)]"
proof -
  have h: "is_healthy (objs (heap two_bots) ! 0)"
    using two_bots_state by (simp add: is_healthy_def)
  have s: "submissions
      (new_events two_bots (snd (health_check_bots mixed (bots two_bots) two_bots)))
       = [(''monitoring_bot'', 1)]"
    by (simp add: two_bots_def example_defs orch_defs Let_def)
  from healthy_worker_is_left_alone [where oc = two_bots and r = 0 and ct = mixed
      and nrs = "bots two_bots" and n = "''mock_bot''", OF h] h s
  show ?thesis by simp
qed

text \<open>
  The loop of \<^verbatim>\<open>MonitoringBot\<close> only ever clears the health flag: after \<^verbatim>\<open>start()\<close> the
  worker is healthy exactly when it was healthy before and no cycle has failed.
\<close>

lemma MonitoringBot_run_healthy:
  "healthy (fst (snd (MonitoringBot_run cs b d)))
     = (healthy b \<and> (running b \<longrightarrow> list_all (\<lambda>c. c = Passes) cs))"
  by (induction cs arbitrary: b) (auto split: cycle.splits)

lemma MonitoringBot_start_healthy:
  "healthy (fst (snd (MonitoringBot_start now cs b d)))
     = (healthy b \<and> list_all (\<lambda>c. c = Passes) cs)"
  by (simp add: MonitoringBot_start_def MonitoringBot_run_healthy)

text \<open>
  C5. After a successful restart (stop, grace period, resubmission) with no failing run
  cycle afterwards a worker should be healthy again. The code never sets the flag back:
  the monitoring worker that one failed cycle made unhealthy is stopped and resubmitted by
  the supervisor, started again by the task, passes three cycles, and still reports
  unhealthy.
\<close>

theorem restart_leaves_worker_unhealthy:
  "\<not> is_healthy (objs (heap sick_hub) ! 0)
   \<and> new_events sick_hub restarted_hub
       = [Log WARNING ''Bot monitoring_bot is unhealthy!'',
          Log INFO ''Attempting to restart monitoring_bot...'',
          Call_stop 0, Sleep 2, Submit ''monitoring_bot'' 0,
          Log INFO ''Successfully restarted monitoring_bot'']
   \<and> running (objs (heap recovered_hub) ! 0)
   \<and> bot_errors (db recovered_hub)
       = Some \<lparr>with_severity = False, table_rows = [], table_seq = 0\<rparr>
   \<and> \<not> is_healthy (objs (heap recovered_hub) ! 0)"
  by (simp add: recovered_hub_def restarted_hub_def sick_hub_def example_defs orch_defs
      Let_def)

end
